theory Spec2Isabelle
  imports Main
begin

unbundle bit_operations_syntax

section \<open>The capability decoder of scripts/decode_cap.py\<close>

text \<open>
  The script reads one compressed capability (an address and a metadata word), splits the
  metadata into bit fields, decodes the permission field, decompresses the bounds and
  classifies the object type, and prints the result. Python integers are unbounded, so
  every number is an \<open>int\<close>; \<open>x >> n\<close> on a Python integer is the floor division by
  \<open>2 ^ n\<close> (\<open>drop_bit\<close>), \<open>x << n\<close> the multiplication (\<open>push_bit\<close>) and \<open>&\<close> the
  two's complement conjunction (\<open>AND\<close>), also on negative numbers.

  The model starts after lines 4 to 14 of the script (the splitting of the command line
  argument and \<open>int(_, 16)\<close>): its inputs are the two integers \<open>addr\<close> and \<open>meta\<close>.
\<close>

subsection \<open>Python primitives\<close>

datatype error = ValueError | KeyError

text \<open>The truth value of an integer in a condition.\<close>

definition truthy :: "int \<Rightarrow> bool" where
  "truthy x = (x \<noteq> 0)"

text \<open>Shifts raise \<open>ValueError\<close> on a negative shift count.\<close>

definition py_rshift :: "int \<Rightarrow> int \<Rightarrow> error + int" where
  "py_rshift x n = (if n < 0 then Inl ValueError else Inr (drop_bit (nat n) x))"

definition py_lshift :: "int \<Rightarrow> int \<Rightarrow> error + int" where
  "py_lshift x n = (if n < 0 then Inl ValueError else Inr (push_bit (nat n) x))"

text \<open>Subscription of a dictionary raises \<open>KeyError\<close> on a missing key.\<close>

definition py_getitem :: "('k \<rightharpoonup> 'v) \<Rightarrow> 'k \<Rightarrow> error + 'v" where
  "py_getitem d k = (case d k of None \<Rightarrow> Inl KeyError | Some x \<Rightarrow> Inr x)"

text \<open>Sequencing of steps that may raise: the first exception ends the run.\<close>

definition bind_err :: "error + 'a \<Rightarrow> ('a \<Rightarrow> error + 'b) \<Rightarrow> error + 'b" where
  "bind_err m f = (case m of Inl err \<Rightarrow> Inl err | Inr x \<Rightarrow> f x)"

subsection \<open>Number formatting\<close>

definition digit_char :: "nat \<Rightarrow> char" where
  "digit_char d = ''0123456789abcdef'' ! d"

fun digits_base :: "nat \<Rightarrow> nat \<Rightarrow> string" where
  "digits_base b n =
     (if b < 2 \<or> n < b then [digit_char n]
      else digits_base b (n div b) @ [digit_char (n mod b)])"

declare digits_base.simps [simp del]

definition sign_str :: "int \<Rightarrow> string" where
  "sign_str n = (if n < 0 then ''-'' else '''')"

text \<open>\<open>str(n)\<close> and a bare \<open>{n}\<close> in a format string.\<close>

definition str :: "int \<Rightarrow> string" where
  "str n = sign_str n @ digits_base 10 (nat \<bar>n\<bar>)"

text \<open>\<open>{n:0Wx}\<close>: hexadecimal, zeros between the sign and the digits up to width \<open>W\<close>.\<close>

definition fmt_0x :: "nat \<Rightarrow> int \<Rightarrow> string" where
  "fmt_0x w n =
     (let d = digits_base 16 (nat \<bar>n\<bar>)
      in sign_str n @ replicate (w - length (sign_str n) - length d) CHR ''0'' @ d)"

text \<open>\<open>{n:Wb}\<close>: binary, right-aligned with spaces up to width \<open>W\<close>.\<close>

definition fmt_b :: "nat \<Rightarrow> int \<Rightarrow> string" where
  "fmt_b w n =
     (let s = sign_str n @ digits_base 2 (nat \<bar>n\<bar>)
      in replicate (w - length s) CHR '' '' @ s)"

subsection \<open>Field extraction (lines 15 to 21)\<close>

record raw_fields =
  raw_v :: int
  raw_R :: int
  raw_perms :: int
  raw_otype :: int
  raw_E :: int
  raw_T :: int
  raw_B :: int

definition extract_fields :: "int \<Rightarrow> raw_fields" where
  "extract_fields meta =
     \<lparr> raw_v = drop_bit 32 meta AND 0x1,
       raw_R = drop_bit 31 meta AND 0x1,
       raw_perms = drop_bit 25 meta AND 0x3f,
       raw_otype = drop_bit 22 meta AND 0x7,
       raw_E = drop_bit 18 meta AND 0xf,
       raw_T = drop_bit 9 meta AND 0x1ff,
       raw_B = meta AND 0x1ff \<rparr>"

subsection \<open>Permission decoding (lines 26 to 48)\<close>

record flags =
  GL :: int
  LD :: int
  SD :: int
  MC :: int
  SL :: int
  LM :: int
  LG :: int
  SR :: int
  EX_perm :: int
  U0 :: int
  SE :: int
  US :: int

text \<open>
  Line 27: every flag but \<open>GL\<close> starts at 0. The flag \<open>EX\<close> of the source is
  \<open>EX_perm\<close> here, since \<open>EX\<close> is reserved in HOL's term syntax.
\<close>

definition no_flags :: "int \<Rightarrow> flags" where
  "no_flags gl =
     \<lparr> GL = gl, LD = 0, SD = 0, MC = 0, SL = 0, LM = 0, LG = 0,
       SR = 0, EX_perm = 0, U0 = 0, SE = 0, US = 0 \<rparr>"

text \<open>
  The chain of line 34 to 48, in the order of the source. The guard of the last branch
  is the source's \<open>not p4 and not 3\<close>: it tests the literal 3.
\<close>

definition decode_perms :: "int \<Rightarrow> flags" where
  "decode_perms perms =
     (let z = no_flags (drop_bit 5 perms AND 1);
          p4 = drop_bit 4 perms AND 1;
          p3 = drop_bit 3 perms AND 1;
          p2 = drop_bit 2 perms AND 1;
          p1 = drop_bit 1 perms AND 1;
          p0 = drop_bit 0 perms AND 1
      in if truthy p4 \<and> truthy p3 then
           z\<lparr>LD := 1, MC := 1, SD := 1, SL := p2, LM := p1, LG := p0\<rparr>
         else if truthy p4 \<and> \<not> truthy p3 \<and> truthy p2 then
           z\<lparr>LD := 1, MC := 1, LM := p1, LG := p0\<rparr>
         else if truthy p4 \<and> \<not> truthy p3 \<and> \<not> truthy p2 \<and> \<not> truthy p1 \<and> \<not> truthy p0 then
           z\<lparr>SD := 1, MC := 1\<rparr>
         else if truthy p4 \<and> \<not> truthy p3 \<and> \<not> truthy p2 then
           z\<lparr>LD := p1, SD := p0\<rparr>
         else if \<not> truthy p4 \<and> truthy p3 then
           z\<lparr>EX_perm := 1, LD := 1, MC := 1, SR := p2, LM := p1, LG := p0\<rparr>
         else if \<not> truthy p4 \<and> \<not> truthy 3 then
           z\<lparr>U0 := p2, SE := p1, US := p0\<rparr>
         else z)"

subsection \<open>The permission string (lines 50 to 65)\<close>

definition pc :: "int \<Rightarrow> string \<Rightarrow> string" where
  "pc p c = (if truthy p then c else ''-'')"

definition build_perm_str :: "flags \<Rightarrow> string" where
  "build_perm_str f =
     pc (GL f) ''G'' @ '' '' @
     pc (LD f) ''R'' @ pc (SD f) ''W'' @ pc (MC f) ''c'' @ pc (LG f) ''g'' @ pc (LM f) ''m'' @
     '' '' @
     pc (EX_perm f) ''X'' @ pc (SR f) ''a'' @
     '' '' @
     pc (SE f) ''S'' @ pc (US f) ''U'' @ pc (U0 f) ''0''"

subsection \<open>Object type (lines 67, 68 and 83 to 91)\<close>

definition shift_otype :: "int \<Rightarrow> int \<Rightarrow> int" where
  "shift_otype otype ex = (if otype \<noteq> 0 \<and> \<not> truthy ex then otype + 8 else otype)"

definition otypes :: "int \<rightharpoonup> string" where
  "otypes =
     [0 \<mapsto> ''unsealed'',
      1 \<mapsto> ''IRQ inherit forward sentry'',
      2 \<mapsto> ''IRQ disable forward sentry'',
      3 \<mapsto> ''IRQ enable forward sentry'',
      4 \<mapsto> ''IRQ disable return sentry'',
      5 \<mapsto> ''IRQ enable return sentry'']"

definition build_otype_str :: "int \<Rightarrow> error + string" where
  "build_otype_str otype =
     (if otypes otype \<noteq> None then
        bind_err (py_getitem otypes otype) (\<lambda>label. Inr (str otype @ '' ('' @ label @ '')''))
      else Inr (str otype))"

subsection \<open>Bounds decompression (lines 69 to 80)\<close>

definition exponent :: "int \<Rightarrow> int" where
  "exponent E = (if E \<noteq> 15 then E else 24)"

definition addr_top :: "int \<Rightarrow> int \<Rightarrow> error + int" where
  "addr_top addr e = py_rshift addr (e + 9)"

definition addr_mid :: "int \<Rightarrow> int \<Rightarrow> error + int" where
  "addr_mid addr e = bind_err (py_rshift addr e) (\<lambda>s. Inr (s AND 0x1ff))"

definition decode_bounds :: "int \<Rightarrow> int \<Rightarrow> int \<Rightarrow> int \<Rightarrow> error + int \<times> int" where
  "decode_bounds addr E T B =
     (let e = exponent E
      in bind_err (addr_top addr e) (\<lambda>a_top.
         bind_err (addr_mid addr e) (\<lambda>a_mid.
           let a_hi = (if a_mid < B then 1 else 0);
               t_hi = (if T < B then 1 else 0);
               c_b = - a_hi;
               c_t = t_hi - a_hi;
               a_top_base = a_top + c_b;
               a_top_top = a_top + c_t
           in bind_err (py_lshift a_top_base 9) (\<lambda>hb.
              bind_err (py_lshift (hb + B) e) (\<lambda>base.
              bind_err (py_lshift a_top_top 9) (\<lambda>ht.
              bind_err (py_lshift (ht + T) e) (\<lambda>top. Inr (base, top))))))))"

subsection \<open>The whole run\<close>

text \<open>
  The result holds the values of the script's variables when it ends and the lines it
  has printed, in order. The length of the capability is not a variable of the script:
  it is the \<open>top - base\<close> of line 81, \<open>top_val r - base r\<close> here.
\<close>

record decoded =
  raw :: raw_fields
  perm_flags :: flags
  perm_str :: string
  otype :: int
  otype_str :: string
  base :: int
  top_val :: int
  stdout :: "string list"

definition raw_line :: "raw_fields \<Rightarrow> int \<Rightarrow> string" where
  "raw_line f addr =
     ''raw: v='' @ str (raw_v f) @ '' R='' @ str (raw_R f) @ '' p='' @ fmt_b 6 (raw_perms f) @
     '' otype='' @ str (raw_otype f) @ '' E='' @ str (raw_E f) @
     '' T=0x'' @ fmt_0x 3 (raw_T f) @ '' B=0x'' @ fmt_0x 3 (raw_B f) @
     '' addr=0x'' @ fmt_0x 8 addr"

definition reserved_warning :: "raw_fields \<Rightarrow> string list" where
  "reserved_warning f = (if raw_R f \<noteq> 0 then [''Reserved bit set!''] else [])"

definition bounds_line :: "int \<Rightarrow> int \<Rightarrow> string" where
  "bounds_line b t = fmt_0x 8 b @ ''-'' @ fmt_0x 9 t @ '' l:'' @ fmt_0x 9 (t - b)"

definition decode_cap :: "int \<Rightarrow> int \<Rightarrow> error + decoded" where
  "decode_cap addr meta =
     (let f = extract_fields meta;
          p = decode_perms (raw_perms f);
          ot = shift_otype (raw_otype f) (EX_perm p)
      in bind_err (decode_bounds addr (raw_E f) (raw_T f) (raw_B f)) (\<lambda>(b, t).
         bind_err (build_otype_str ot) (\<lambda>os.
           Inr \<lparr> raw = f, perm_flags = p, perm_str = build_perm_str p,
                 otype = ot, otype_str = os, base = b, top_val = t,
                 stdout = [raw_line f addr] @ reserved_warning f @
                          [bounds_line b t, ''otype='' @ os, build_perm_str p] \<rparr>)))"

section \<open>Auxiliary facts\<close>

subsection \<open>Masks and single bits\<close>

lemma and_1ff: "(x::int) AND 0x1ff = take_bit 9 x"
  by (simp add: take_bit_eq_mask mask_eq_exp_minus_1)

lemma and_3f: "(x::int) AND 0x3f = take_bit 6 x"
  by (simp add: take_bit_eq_mask mask_eq_exp_minus_1)

lemma and_7: "(x::int) AND 0x7 = take_bit 3 x"
  by (simp add: take_bit_eq_mask mask_eq_exp_minus_1)

lemma and_f: "(x::int) AND 0xf = take_bit 4 x"
  by (simp add: take_bit_eq_mask mask_eq_exp_minus_1)

lemma bit_value: "drop_bit k (x::int) AND 1 = of_bool (bit x k)"
  by (simp add: and_one_eq bit_iff_odd_drop_bit mod_2_eq_odd)

lemma bit_value0: "(x::int) AND 1 = of_bool (bit x 0)"
  by (simp add: and_one_eq bit_0 mod_2_eq_odd)

lemma truthy_of_bool: "truthy (of_bool b) = b"
  by (simp add: truthy_def)

lemma truthy_3: "truthy 3"
  by (simp add: truthy_def)

lemma push9_add_or: "push_bit 9 (x::int) + take_bit 9 y = push_bit 9 x OR take_bit 9 y"
  by (rule disjunctive_add) (simp add: bit_simps)

subsection \<open>Evaluation of the formatting functions on numerals\<close>

lemma replicate_numeral_unfold: "replicate (numeral k) x = x # replicate (pred_numeral k) x"
  by (simp add: numeral_eq_Suc)

lemmas fmt_simps = fmt_0x_def fmt_b_def str_def sign_str_def digit_char_def
  replicate_numeral_unfold digits_base.simps

subsection \<open>The stages never raise\<close>

lemma raw_E_range: "0 \<le> raw_E (extract_fields meta) \<and> raw_E (extract_fields meta) \<le> 15"
  by (simp add: extract_fields_def)

lemma exponent_nonneg: "0 \<le> exponent (raw_E (extract_fields meta))"
  using raw_E_range [of meta] by (simp add: exponent_def)

lemma raw_T_take: "raw_T (extract_fields meta) = take_bit 9 (drop_bit 9 meta)"
  by (simp add: extract_fields_def and_1ff)

lemma addr_top_total: "0 \<le> e \<Longrightarrow> addr_top addr e = Inr (drop_bit (nat (e + 9)) addr)"
  by (simp add: addr_top_def py_rshift_def)

lemma addr_mid_total: "0 \<le> e \<Longrightarrow> addr_mid addr e = Inr (drop_bit (nat e) addr AND 0x1ff)"
  by (simp add: addr_mid_def py_rshift_def bind_err_def)

lemma decode_bounds_total:
  assumes "0 \<le> E"
  shows "decode_bounds addr E T B =
    Inr (push_bit (nat (exponent E))
           (push_bit 9 (drop_bit (nat (exponent E + 9)) addr
                        - (if drop_bit (nat (exponent E)) addr AND 0x1ff < B then 1 else 0)) + B),
         push_bit (nat (exponent E))
           (push_bit 9 (drop_bit (nat (exponent E + 9)) addr
                        + ((if T < B then 1 else 0)
                           - (if drop_bit (nat (exponent E)) addr AND 0x1ff < B then 1 else 0))) + T))"
proof -
  have e: "0 \<le> exponent E" using assms by (simp add: exponent_def)
  then show ?thesis
    by (simp add: decode_bounds_def addr_top_def addr_mid_def py_rshift_def py_lshift_def
        bind_err_def Let_def)
qed

lemma build_otype_str_total:
  "build_otype_str ot =
     Inr (case otypes ot of None \<Rightarrow> str ot | Some l \<Rightarrow> str ot @ '' ('' @ l @ '')'')"
  by (simp add: build_otype_str_def py_getitem_def bind_err_def split: option.splits)

subsection \<open>The run in terms of its stages\<close>

lemma decode_cap_unfold:
  assumes "extract_fields meta = f"
    and "decode_perms (raw_perms f) = p"
    and "shift_otype (raw_otype f) (EX_perm p) = ot"
    and "decode_bounds addr (raw_E f) (raw_T f) (raw_B f) = Inr (b, t)"
    and "build_otype_str ot = Inr os"
  shows "decode_cap addr meta =
      Inr \<lparr> raw = f, perm_flags = p, perm_str = build_perm_str p,
            otype = ot, otype_str = os, base = b, top_val = t,
            stdout = [raw_line f addr] @ reserved_warning f @
                     [bounds_line b t, ''otype='' @ os, build_perm_str p] \<rparr>"
  unfolding decode_cap_def Let_def using assms by (simp add: bind_err_def)

lemma decode_cap_fields:
  "\<exists>r. decode_cap addr meta = Inr r
     \<and> raw r = extract_fields meta
     \<and> perm_flags r = decode_perms (raw_perms (extract_fields meta))
     \<and> perm_str r = build_perm_str (perm_flags r)
     \<and> otype r = shift_otype (raw_otype (extract_fields meta)) (EX_perm (perm_flags r))
     \<and> build_otype_str (otype r) = Inr (otype_str r)
     \<and> decode_bounds addr (raw_E (raw r)) (raw_T (raw r)) (raw_B (raw r))
         = Inr (base r, top_val r)
     \<and> stdout r = [raw_line (raw r) addr] @ reserved_warning (raw r) @
                  [bounds_line (base r) (top_val r), ''otype='' @ otype_str r, perm_str r]"
proof -
  define f where "f = extract_fields meta"
  define p where "p = decode_perms (raw_perms f)"
  define ot where "ot = shift_otype (raw_otype f) (EX_perm p)"
  have "0 \<le> raw_E f" using raw_E_range by (simp add: f_def)
  from decode_bounds_total [OF this] obtain b t
    where bt: "decode_bounds addr (raw_E f) (raw_T f) (raw_B f) = Inr (b, t)" by blast
  obtain os where os: "build_otype_str ot = Inr os"
    using build_otype_str_total by blast
  have "decode_cap addr meta =
      Inr \<lparr> raw = f, perm_flags = p, perm_str = build_perm_str p,
            otype = ot, otype_str = os, base = b, top_val = t,
            stdout = [raw_line f addr] @ reserved_warning f @
                     [bounds_line b t, ''otype='' @ os, build_perm_str p] \<rparr>"
    by (rule decode_cap_unfold [OF _ _ _ bt os]) (simp_all add: f_def p_def ot_def)
  then show ?thesis
    using bt os by (simp add: f_def p_def ot_def)
qed

subsection \<open>The permission chain on the bits of the field\<close>

lemma decode_perms_bits:
  "decode_perms perms =
     (let z = no_flags (of_bool (bit perms 5));
          p2 = of_bool (bit perms 2); p1 = of_bool (bit perms 1); p0 = of_bool (bit perms 0)
      in if bit perms 4 \<and> bit perms 3 then
           z\<lparr>LD := 1, MC := 1, SD := 1, SL := p2, LM := p1, LG := p0\<rparr>
         else if bit perms 4 \<and> bit perms 2 then
           z\<lparr>LD := 1, MC := 1, LM := p1, LG := p0\<rparr>
         else if bit perms 4 \<and> \<not> bit perms 1 \<and> \<not> bit perms 0 then
           z\<lparr>SD := 1, MC := 1\<rparr>
         else if bit perms 4 then
           z\<lparr>LD := p1, SD := p0\<rparr>
         else if bit perms 3 then
           z\<lparr>EX_perm := 1, LD := 1, MC := 1, SR := p2, LM := p1, LG := p0\<rparr>
         else z)"
proof -
  have b0: "drop_bit 0 perms AND 1 = of_bool (bit perms 0)"
    by (simp add: bit_value0)
  show ?thesis
    unfolding decode_perms_def bit_value b0 truthy_of_bool Let_def
    by (cases "bit perms 4"; cases "bit perms 3"; cases "bit perms 2"; cases "bit perms 1";
        cases "bit perms 0"; simp only: truthy_3 simp_thms if_True if_False)
qed

subsection \<open>Setting or clearing one bit of the metadata word\<close>

lemma extract_fields_set_31:
  "extract_fields (set_bit 31 meta) = (extract_fields meta)\<lparr>raw_R := 1\<rparr>"
proof -
  have v: "drop_bit 32 (set_bit 31 meta) AND 0x1 = drop_bit 32 meta AND 0x1"
    unfolding bit_value by (simp add: bit_simps)
  have r: "drop_bit 31 (set_bit 31 meta) AND 0x1 = 1"
    unfolding bit_value by (simp add: bit_simps)
  have p: "drop_bit 25 (set_bit 31 meta) AND 0x3f = drop_bit 25 meta AND 0x3f"
    unfolding and_3f by (rule bit_eqI) (auto simp add: bit_simps)
  have o: "drop_bit 22 (set_bit 31 meta) AND 0x7 = drop_bit 22 meta AND 0x7"
    unfolding and_7 by (rule bit_eqI) (auto simp add: bit_simps)
  have e: "drop_bit 18 (set_bit 31 meta) AND 0xf = drop_bit 18 meta AND 0xf"
    unfolding and_f by (rule bit_eqI) (auto simp add: bit_simps)
  have t: "drop_bit 9 (set_bit 31 meta) AND 0x1ff = drop_bit 9 meta AND 0x1ff"
    unfolding and_1ff by (rule bit_eqI) (auto simp add: bit_simps)
  have b: "set_bit 31 meta AND 0x1ff = meta AND 0x1ff"
    unfolding and_1ff by (rule bit_eqI) (auto simp add: bit_simps)
  show ?thesis
    unfolding extract_fields_def v r p o e t b by simp
qed

lemma extract_fields_unset_31:
  "extract_fields (unset_bit 31 meta) = (extract_fields meta)\<lparr>raw_R := 0\<rparr>"
proof -
  have v: "drop_bit 32 (unset_bit 31 meta) AND 0x1 = drop_bit 32 meta AND 0x1"
    unfolding bit_value by (simp add: bit_simps)
  have r: "drop_bit 31 (unset_bit 31 meta) AND 0x1 = 0"
    unfolding bit_value by (simp add: bit_simps)
  have p: "drop_bit 25 (unset_bit 31 meta) AND 0x3f = drop_bit 25 meta AND 0x3f"
    unfolding and_3f by (rule bit_eqI) (auto simp add: bit_simps)
  have o: "drop_bit 22 (unset_bit 31 meta) AND 0x7 = drop_bit 22 meta AND 0x7"
    unfolding and_7 by (rule bit_eqI) (auto simp add: bit_simps)
  have e: "drop_bit 18 (unset_bit 31 meta) AND 0xf = drop_bit 18 meta AND 0xf"
    unfolding and_f by (rule bit_eqI) (auto simp add: bit_simps)
  have t: "drop_bit 9 (unset_bit 31 meta) AND 0x1ff = drop_bit 9 meta AND 0x1ff"
    unfolding and_1ff by (rule bit_eqI) (auto simp add: bit_simps)
  have b: "unset_bit 31 meta AND 0x1ff = meta AND 0x1ff"
    unfolding and_1ff by (rule bit_eqI) (auto simp add: bit_simps)
  show ?thesis
    unfolding extract_fields_def v r p o e t b by simp
qed

lemma extract_fields_set_30:
  "extract_fields (set_bit 30 meta) =
     (extract_fields meta)\<lparr>raw_perms := set_bit 5 (raw_perms (extract_fields meta))\<rparr>"
proof -
  have v: "drop_bit 32 (set_bit 30 meta) AND 0x1 = drop_bit 32 meta AND 0x1"
    unfolding bit_value by (simp add: bit_simps)
  have r: "drop_bit 31 (set_bit 30 meta) AND 0x1 = drop_bit 31 meta AND 0x1"
    unfolding bit_value by (simp add: bit_simps)
  have p: "drop_bit 25 (set_bit 30 meta) AND 0x3f = set_bit 5 (drop_bit 25 meta AND 0x3f)"
    unfolding and_3f by (rule bit_eqI) (auto simp add: bit_simps)
  have o: "drop_bit 22 (set_bit 30 meta) AND 0x7 = drop_bit 22 meta AND 0x7"
    unfolding and_7 by (rule bit_eqI) (auto simp add: bit_simps)
  have e: "drop_bit 18 (set_bit 30 meta) AND 0xf = drop_bit 18 meta AND 0xf"
    unfolding and_f by (rule bit_eqI) (auto simp add: bit_simps)
  have t: "drop_bit 9 (set_bit 30 meta) AND 0x1ff = drop_bit 9 meta AND 0x1ff"
    unfolding and_1ff by (rule bit_eqI) (auto simp add: bit_simps)
  have b: "set_bit 30 meta AND 0x1ff = meta AND 0x1ff"
    unfolding and_1ff by (rule bit_eqI) (auto simp add: bit_simps)
  show ?thesis
    unfolding extract_fields_def v r p o e t b by simp
qed

lemma extract_fields_unset_30:
  "extract_fields (unset_bit 30 meta) =
     (extract_fields meta)\<lparr>raw_perms := unset_bit 5 (raw_perms (extract_fields meta))\<rparr>"
proof -
  have v: "drop_bit 32 (unset_bit 30 meta) AND 0x1 = drop_bit 32 meta AND 0x1"
    unfolding bit_value by (simp add: bit_simps)
  have r: "drop_bit 31 (unset_bit 30 meta) AND 0x1 = drop_bit 31 meta AND 0x1"
    unfolding bit_value by (simp add: bit_simps)
  have p: "drop_bit 25 (unset_bit 30 meta) AND 0x3f = unset_bit 5 (drop_bit 25 meta AND 0x3f)"
    unfolding and_3f by (rule bit_eqI) (auto simp add: bit_simps)
  have o: "drop_bit 22 (unset_bit 30 meta) AND 0x7 = drop_bit 22 meta AND 0x7"
    unfolding and_7 by (rule bit_eqI) (auto simp add: bit_simps)
  have e: "drop_bit 18 (unset_bit 30 meta) AND 0xf = drop_bit 18 meta AND 0xf"
    unfolding and_f by (rule bit_eqI) (auto simp add: bit_simps)
  have t: "drop_bit 9 (unset_bit 30 meta) AND 0x1ff = drop_bit 9 meta AND 0x1ff"
    unfolding and_1ff by (rule bit_eqI) (auto simp add: bit_simps)
  have b: "unset_bit 30 meta AND 0x1ff = meta AND 0x1ff"
    unfolding and_1ff by (rule bit_eqI) (auto simp add: bit_simps)
  show ?thesis
    unfolding extract_fields_def v r p o e t b by simp
qed

lemma decode_perms_set_5: "decode_perms (set_bit 5 x) = (decode_perms x)\<lparr>GL := 1\<rparr>"
  unfolding decode_perms_bits Let_def by (simp add: bit_simps no_flags_def)

lemma decode_perms_unset_5: "decode_perms (unset_bit 5 x) = (decode_perms x)\<lparr>GL := 0\<rparr>"
  unfolding decode_perms_bits Let_def by (simp add: bit_simps no_flags_def)

subsection \<open>Two runs that differ in the echoed fields only\<close>

lemma decode_cap_pair:
  assumes f1: "extract_fields m1 = f1" and f0: "extract_fields m0 = f0"
    and x: "EX_perm (decode_perms (raw_perms f1)) = EX_perm (decode_perms (raw_perms f0))"
    and o: "raw_otype f1 = raw_otype f0"
    and e: "raw_E f1 = raw_E f0" and t: "raw_T f1 = raw_T f0" and b: "raw_B f1 = raw_B f0"
  shows "\<exists>r1 r0. decode_cap addr m1 = Inr r1 \<and> decode_cap addr m0 = Inr r0
     \<and> raw r1 = f1 \<and> raw r0 = f0
     \<and> perm_flags r1 = decode_perms (raw_perms f1)
     \<and> perm_flags r0 = decode_perms (raw_perms f0)
     \<and> perm_str r1 = build_perm_str (perm_flags r1)
     \<and> perm_str r0 = build_perm_str (perm_flags r0)
     \<and> otype r1 = otype r0 \<and> otype_str r1 = otype_str r0
     \<and> base r1 = base r0 \<and> top_val r1 = top_val r0
     \<and> stdout r1 = [raw_line f1 addr] @ reserved_warning f1 @
           [bounds_line (base r0) (top_val r0), ''otype='' @ otype_str r0, perm_str r1]
     \<and> stdout r0 = [raw_line f0 addr] @ reserved_warning f0 @
           [bounds_line (base r0) (top_val r0), ''otype='' @ otype_str r0, perm_str r0]"
proof -
  define p0 where "p0 = decode_perms (raw_perms f0)"
  define p1 where "p1 = decode_perms (raw_perms f1)"
  define ot where "ot = shift_otype (raw_otype f0) (EX_perm p0)"
  have "0 \<le> raw_E f0" using raw_E_range [of m0] f0 by simp
  from decode_bounds_total [OF this] obtain lo hi
    where bt: "decode_bounds addr (raw_E f0) (raw_T f0) (raw_B f0) = Inr (lo, hi)" by blast
  obtain os where os: "build_otype_str ot = Inr os"
    using build_otype_str_total by blast
  have d0: "decode_cap addr m0 =
      Inr \<lparr> raw = f0, perm_flags = p0, perm_str = build_perm_str p0,
            otype = ot, otype_str = os, base = lo, top_val = hi,
            stdout = [raw_line f0 addr] @ reserved_warning f0 @
                     [bounds_line lo hi, ''otype='' @ os, build_perm_str p0] \<rparr>"
    by (rule decode_cap_unfold [OF f0 _ _ bt os]) (simp_all add: p0_def ot_def)
  have d1: "decode_cap addr m1 =
      Inr \<lparr> raw = f1, perm_flags = p1, perm_str = build_perm_str p1,
            otype = ot, otype_str = os, base = lo, top_val = hi,
            stdout = [raw_line f1 addr] @ reserved_warning f1 @
                     [bounds_line lo hi, ''otype='' @ os, build_perm_str p1] \<rparr>"
    by (rule decode_cap_unfold [OF f1 _ _ _ os])
       (simp_all add: p0_def p1_def ot_def x o e t b bt)
  show ?thesis
    unfolding d0 d1 by (simp add: p0_def p1_def)
qed

subsection \<open>The table of object types\<close>


subsection \<open>The permission chain below the first five rules\<close>

lemma decode_perms_low:
  "\<not> bit perms 4 \<Longrightarrow> \<not> bit perms 3 \<Longrightarrow> decode_perms perms = no_flags (of_bool (bit perms 5))"
  by (simp add: decode_perms_bits)

section \<open>The claims\<close>

text \<open>
  C7. The decoder is total: whatever the address and the metadata word are, no shift
  gets a negative count and no lookup in \<open>otypes\<close> misses its key, so the run ends
  with a result and never with an exception.
\<close>

theorem decode_cap_total: "\<exists>r. decode_cap addr meta = Inr r"
  using decode_cap_fields [of addr meta] by blast

text \<open>
  C4. The end-to-end example: address \<open>0x00010000\<close>, tag 1, reserved 0, perms
  \<open>011000\<close> (\<open>p4 = p3 = 1\<close>, the rest 0), otype 0, \<open>E = 0\<close>, \<open>T = 0x010\<close>,
  \<open>B = 0x000\<close>, that is the metadata word \<open>0x130002000\<close>, decodes to base
  \<open>0x00010000\<close>, top \<open>0x00010010\<close>, length \<open>0x10\<close>, the flags LD, SD and MC set and
  every other flag clear, and the object type 0, labelled unsealed.
\<close>

theorem end_to_end_example:
  "decode_cap 0x00010000 0x130002000 =
     Inr \<lparr> raw = \<lparr> raw_v = 1, raw_R = 0, raw_perms = 24, raw_otype = 0, raw_E = 0,
                   raw_T = 0x010, raw_B = 0x000 \<rparr>,
           perm_flags = \<lparr> GL = 0, LD = 1, SD = 1, MC = 1, SL = 0, LM = 0, LG = 0,
                          SR = 0, EX_perm = 0, U0 = 0, SE = 0, US = 0 \<rparr>,
           perm_str = ''- RWc-- -- ---'',
           otype = 0, otype_str = ''0 (unsealed)'',
           base = 0x00010000, top_val = 0x00010010,
           stdout = [''raw: v=1 R=0 p= 11000 otype=0 E=0 T=0x010 B=0x000 addr=0x00010000'',
                     ''00010000-000010010 l:000000010'',
                     ''otype=0 (unsealed)'',
                     ''- RWc-- -- ---''] \<rparr>
   \<and> (0x00010010::int) - 0x00010000 = 0x10"
    (is "_ = Inr \<lparr> raw = ?f, perm_flags = ?p, perm_str = _, otype = _, otype_str = _,
                    base = _, top_val = _, stdout = _ \<rparr> \<and> _")
proof -
  have f: "extract_fields 0x130002000 = ?f"
    by (simp add: extract_fields_def)
  have p: "decode_perms (raw_perms ?f) = ?p"
    by (simp add: decode_perms_def no_flags_def truthy_def)
  have ot: "shift_otype (raw_otype ?f) (EX_perm ?p) = 0"
    by (simp add: shift_otype_def)
  have bt: "decode_bounds 0x10000 (raw_E ?f) (raw_T ?f) (raw_B ?f) = Inr (0x10000, 0x10010)"
    by (simp add: decode_bounds_total exponent_def)
  have os: "build_otype_str 0 = Inr ''0 (unsealed)''"
    by (simp add: build_otype_str_total otypes_def fmt_simps)
  have ps: "build_perm_str ?p = ''- RWc-- -- ---''"
    by (simp add: build_perm_str_def pc_def truthy_def)
  have rl: "raw_line ?f 0x10000 =
      ''raw: v=1 R=0 p= 11000 otype=0 E=0 T=0x010 B=0x000 addr=0x00010000''"
    by (simp add: raw_line_def fmt_simps)
  have bl: "bounds_line 0x10000 0x10010 = ''00010000-000010010 l:000000010''"
    by (simp add: bounds_line_def fmt_simps)
  have rw: "reserved_warning ?f = []"
    by (simp add: reserved_warning_def)
  show ?thesis
    by (simp add: decode_cap_unfold [OF f p ot bt os] ps rl bl rw)
qed

text \<open>
  C2. Wraparound correction of the top, on the inputs. Let \<open>E\<close>, \<open>T\<close> and \<open>B\<close> be bits
  18 to 21, 9 to 17 and 0 to 8 of the metadata word, \<open>e\<close> be 24 when \<open>E = 15\<close> and \<open>E\<close>
  otherwise, \<open>a_top = addr >> (e + 9)\<close> and \<open>a_mid = (addr >> e) & 0x1ff\<close>. When
  \<open>a_mid >= B\<close> and \<open>T < B\<close>, the decoded top is \<open>((a_top + 1) << 9 | T) << e\<close>, which is
  exactly \<open>2 ^ (e + 9)\<close>, one block of 512 units of \<open>2 ^ e\<close>, above the uncorrected
  \<open>(a_top << 9 | T) << e\<close>. For address \<open>0x1800\<close> with \<open>E = 3\<close>, \<open>T = 0x10\<close>,
  \<open>B = 0x80\<close> the top is 8320, and for address \<open>0x80000000\<close> with \<open>E = 15\<close>,
  \<open>T = 0x8\<close>, \<open>B = 0x10\<close> it is 8724152320.
\<close>

theorem top_wraparound_correction:
  assumes E: "E = drop_bit 18 meta AND 0xf"
    and e: "e = (if E \<noteq> 15 then E else 24)"
    and T: "T = drop_bit 9 meta AND 0x1ff"
    and B: "B = meta AND 0x1ff"
    and a_top: "a_top = drop_bit (nat (e + 9)) addr"
    and a_mid: "a_mid = drop_bit (nat e) addr AND 0x1ff"
    and mid: "B \<le> a_mid"
    and wrap: "T < B"
  shows "\<exists>r. decode_cap addr meta = Inr r
     \<and> top_val r = push_bit (nat e) (push_bit 9 (a_top + 1) OR T)
     \<and> top_val r = push_bit (nat e) (push_bit 9 a_top OR T) + 2 ^ nat (e + 9)"
proof -
  define f where "f = extract_fields meta"
  have fE: "raw_E f = E" and fT: "raw_T f = T" and fB: "raw_B f = B"
    by (simp_all add: f_def extract_fields_def E T B)
  have ex: "exponent (raw_E f) = e"
    by (simp add: exponent_def fE e)
  obtain r where r: "decode_cap addr meta = Inr r" "raw r = f"
    and b: "decode_bounds addr (raw_E (raw r)) (raw_T (raw r)) (raw_B (raw r))
              = Inr (base r, top_val r)"
    using decode_cap_fields [of addr meta] by (auto simp add: f_def)
  have e0: "0 \<le> e" using exponent_nonneg [of meta] ex by (simp add: f_def)
  have E0: "0 \<le> raw_E f" using raw_E_range [of meta] by (simp add: f_def)
  have Tt: "T = take_bit 9 (drop_bit 9 meta)"
    unfolding T by (rule and_1ff)
  have top: "top_val r = push_bit (nat e) (push_bit 9 (a_top + 1) + T)"
    using b decode_bounds_total [OF E0, of addr "raw_T f" "raw_B f"] mid wrap
    by (simp add: r ex fT fB a_top a_mid)
  have or1: "push_bit 9 (a_top + 1) + T = push_bit 9 (a_top + 1) OR T"
    unfolding Tt by (rule push9_add_or)
  have or0: "push_bit 9 a_top + T = push_bit 9 a_top OR T"
    unfolding Tt by (rule push9_add_or)
  have pw: "(2::int) ^ nat (e + 9) = 2 ^ nat e * 2 ^ 9"
    using e0 by (simp add: nat_add_distrib power_add)
  have "push_bit (nat e) (push_bit 9 (a_top + 1) + T)
      = push_bit (nat e) (push_bit 9 a_top + T) + 2 ^ nat (e + 9)"
    unfolding pw by (simp add: push_bit_eq_mult algebra_simps)
  with top or1 or0 r show ?thesis by simp
qed

theorem top_wraparound_correction_witness:
  "(drop_bit 18 (0xc2080::int) AND 0xf = 3
     \<and> drop_bit 9 (0xc2080::int) AND 0x1ff = 0x10 \<and> (0xc2080::int) AND 0x1ff = 0x80
     \<and> drop_bit 12 (0x1800::int) = 1
     \<and> drop_bit 3 (0x1800::int) AND 0x1ff = 0x100
     \<and> (\<exists>r. decode_cap 0x1800 0xc2080 = Inr r \<and> top_val r = 8320
           \<and> top_val r = push_bit 3 (push_bit 9 (1::int) OR 0x10) + 2 ^ 12))
   \<and> (drop_bit 18 (0x3c1010::int) AND 0xf = 15
     \<and> drop_bit 9 (0x3c1010::int) AND 0x1ff = 0x8 \<and> (0x3c1010::int) AND 0x1ff = 0x10
     \<and> drop_bit 33 (0x80000000::int) = 0
     \<and> drop_bit 24 (0x80000000::int) AND 0x1ff = 0x80
     \<and> (\<exists>r. decode_cap 0x80000000 0x3c1010 = Inr r \<and> top_val r = 8724152320
           \<and> top_val r = push_bit 24 (push_bit 9 (0::int) OR 0x8) + 2 ^ 33))"
proof -
  have E: "(3::int) = drop_bit 18 (0xc2080::int) AND 0xf" by simp
  have e: "(3::int) = (if (3::int) \<noteq> 15 then 3 else 24)" by simp
  have T: "(0x10::int) = drop_bit 9 (0xc2080::int) AND 0x1ff" by simp
  have B: "(0x80::int) = (0xc2080::int) AND 0x1ff" by simp
  have a_top: "(1::int) = drop_bit (nat (3 + 9)) (0x1800::int)" by simp
  have a_mid: "(0x100::int) = drop_bit (nat 3) (0x1800::int) AND 0x1ff" by simp
  have mid: "(0x80::int) \<le> 0x100" by simp
  have wrap: "(0x10::int) < 0x80" by simp
  note w = top_wraparound_correction [OF E e T B a_top a_mid mid wrap]
  have v: "push_bit (nat 3) (push_bit 9 ((1::int) + 1) OR 0x10) = 8320"
    by simp
  have one: "\<exists>r. decode_cap 0x1800 0xc2080 = Inr r \<and> top_val r = 8320
           \<and> top_val r = push_bit 3 (push_bit 9 (1::int) OR 0x10) + 2 ^ 12"
    using w unfolding v by simp
  have E': "(15::int) = drop_bit 18 (0x3c1010::int) AND 0xf" by simp
  have e': "(24::int) = (if (15::int) \<noteq> 15 then 15 else 24)" by simp
  have T': "(0x8::int) = drop_bit 9 (0x3c1010::int) AND 0x1ff" by simp
  have B': "(0x10::int) = (0x3c1010::int) AND 0x1ff" by simp
  have a_top': "(0::int) = drop_bit (nat (24 + 9)) (0x80000000::int)" by simp
  have a_mid': "(0x80::int) = drop_bit (nat 24) (0x80000000::int) AND 0x1ff" by simp
  have mid': "(0x10::int) \<le> 0x80" by simp
  have wrap': "(0x8::int) < 0x10" by simp
  note w' = top_wraparound_correction [OF E' e' T' B' a_top' a_mid' mid' wrap']
  have v': "push_bit (nat 24) (push_bit 9 ((0::int) + 1) OR 0x8) = 8724152320"
    by simp
  have two: "\<exists>r. decode_cap 0x80000000 0x3c1010 = Inr r \<and> top_val r = 8724152320
           \<and> top_val r = push_bit 24 (push_bit 9 (0::int) OR 0x8) + 2 ^ 33"
    using w' unfolding v' by simp
  have h: "drop_bit 18 (0xc2080::int) AND 0xf = 3"
    "drop_bit 9 (0xc2080::int) AND 0x1ff = 0x10" "(0xc2080::int) AND 0x1ff = 0x80"
    "drop_bit 12 (0x1800::int) = 1" "drop_bit 3 (0x1800::int) AND 0x1ff = 0x100"
    by simp_all
  have h': "drop_bit 18 (0x3c1010::int) AND 0xf = 15"
    "drop_bit 9 (0x3c1010::int) AND 0x1ff = 0x8" "(0x3c1010::int) AND 0x1ff = 0x10"
    "drop_bit 33 (0x80000000::int) = 0" "drop_bit 24 (0x80000000::int) AND 0x1ff = 0x80"
    by simp_all
  show ?thesis
    by (intro conjI h h' one two)
qed

text \<open>
  C8. A set reserved bit (bit 31 of the metadata) only adds the line
  \<open>Reserved bit set!\<close> to the output: the run still ends with a result, and the
  permission flags, the base, the top, the length and the object type are those of the
  same input with bit 31 cleared. Only the echoed \<open>R\<close> differs.
\<close>

theorem reserved_bit_only_warns:
  "\<exists>r1 r0. decode_cap addr (set_bit 31 meta) = Inr r1
     \<and> decode_cap addr (unset_bit 31 meta) = Inr r0
     \<and> raw r1 = (raw r0)\<lparr>raw_R := 1\<rparr> \<and> raw_R (raw r0) = 0
     \<and> perm_flags r1 = perm_flags r0 \<and> perm_str r1 = perm_str r0
     \<and> otype r1 = otype r0 \<and> otype_str r1 = otype_str r0
     \<and> base r1 = base r0 \<and> top_val r1 = top_val r0
     \<and> top_val r1 - base r1 = top_val r0 - base r0
     \<and> stdout r0 = [raw_line (raw r0) addr, bounds_line (base r0) (top_val r0),
                     ''otype='' @ otype_str r0, perm_str r0]
     \<and> stdout r1 = [raw_line (raw r1) addr, ''Reserved bit set!'',
                     bounds_line (base r0) (top_val r0), ''otype='' @ otype_str r0, perm_str r0]"
proof -
  define f where "f = extract_fields meta"
  have f1: "extract_fields (set_bit 31 meta) = f\<lparr>raw_R := 1\<rparr>"
    by (simp add: extract_fields_set_31 f_def)
  have f0: "extract_fields (unset_bit 31 meta) = f\<lparr>raw_R := 0\<rparr>"
    by (simp add: extract_fields_unset_31 f_def)
  obtain r1 r0 where r: "decode_cap addr (set_bit 31 meta) = Inr r1"
      "decode_cap addr (unset_bit 31 meta) = Inr r0"
      "raw r1 = f\<lparr>raw_R := 1\<rparr>" "raw r0 = f\<lparr>raw_R := 0\<rparr>"
      "perm_flags r1 = decode_perms (raw_perms f)" "perm_flags r0 = decode_perms (raw_perms f)"
      "perm_str r1 = build_perm_str (perm_flags r1)" "perm_str r0 = build_perm_str (perm_flags r0)"
      "otype r1 = otype r0" "otype_str r1 = otype_str r0"
      "base r1 = base r0" "top_val r1 = top_val r0"
    and out1: "stdout r1 = [raw_line (f\<lparr>raw_R := 1\<rparr>) addr] @ reserved_warning (f\<lparr>raw_R := 1\<rparr>) @
           [bounds_line (base r0) (top_val r0), ''otype='' @ otype_str r0, perm_str r1]"
    and out0: "stdout r0 = [raw_line (f\<lparr>raw_R := 0\<rparr>) addr] @ reserved_warning (f\<lparr>raw_R := 0\<rparr>) @
           [bounds_line (base r0) (top_val r0), ''otype='' @ otype_str r0, perm_str r0]"
    using decode_cap_pair [OF f1 f0, of addr] by auto
  have w1: "reserved_warning (f\<lparr>raw_R := 1\<rparr>) = [''Reserved bit set!'']"
    by (simp add: reserved_warning_def)
  have w0: "reserved_warning (f\<lparr>raw_R := 0\<rparr>) = []"
    by (simp add: reserved_warning_def)
  show ?thesis
    using r out1 out0 unfolding w1 w0 by (rule_tac x = r1 in exI, rule_tac x = r0 in exI) simp
qed

text \<open>
  C9. Two inputs that differ only in bit 5 of the perms field (bit 30 of the metadata)
  decode to the same eleven other flags, the same base, top and length and the same
  object type: the bit sets \<open>GL\<close> and nothing else.
\<close>

theorem global_bit_independent:
  "\<exists>r1 r0. decode_cap addr (set_bit 30 meta) = Inr r1
     \<and> decode_cap addr (unset_bit 30 meta) = Inr r0
     \<and> GL (perm_flags r1) = 1 \<and> GL (perm_flags r0) = 0
     \<and> LD (perm_flags r1) = LD (perm_flags r0) \<and> SD (perm_flags r1) = SD (perm_flags r0)
     \<and> MC (perm_flags r1) = MC (perm_flags r0) \<and> SL (perm_flags r1) = SL (perm_flags r0)
     \<and> LM (perm_flags r1) = LM (perm_flags r0) \<and> LG (perm_flags r1) = LG (perm_flags r0)
     \<and> SR (perm_flags r1) = SR (perm_flags r0)
     \<and> EX_perm (perm_flags r1) = EX_perm (perm_flags r0)
     \<and> U0 (perm_flags r1) = U0 (perm_flags r0) \<and> SE (perm_flags r1) = SE (perm_flags r0)
     \<and> US (perm_flags r1) = US (perm_flags r0)
     \<and> perm_flags r1 = (perm_flags r0)\<lparr>GL := 1\<rparr>
     \<and> tl (perm_str r1) = tl (perm_str r0)
     \<and> otype r1 = otype r0 \<and> otype_str r1 = otype_str r0
     \<and> base r1 = base r0 \<and> top_val r1 = top_val r0
     \<and> top_val r1 - base r1 = top_val r0 - base r0"
proof -
  define f where "f = extract_fields meta"
  have f1: "extract_fields (set_bit 30 meta) = f\<lparr>raw_perms := set_bit 5 (raw_perms f)\<rparr>"
    by (simp add: extract_fields_set_30 f_def)
  have f0: "extract_fields (unset_bit 30 meta) = f\<lparr>raw_perms := unset_bit 5 (raw_perms f)\<rparr>"
    by (simp add: extract_fields_unset_30 f_def)
  have x: "EX_perm (decode_perms (raw_perms (f\<lparr>raw_perms := set_bit 5 (raw_perms f)\<rparr>)))
      = EX_perm (decode_perms (raw_perms (f\<lparr>raw_perms := unset_bit 5 (raw_perms f)\<rparr>)))"
    by (simp add: decode_perms_set_5 decode_perms_unset_5)
  obtain r1 r0 where r: "decode_cap addr (set_bit 30 meta) = Inr r1"
      "decode_cap addr (unset_bit 30 meta) = Inr r0"
      "otype r1 = otype r0" "otype_str r1 = otype_str r0"
      "base r1 = base r0" "top_val r1 = top_val r0"
    and p1: "perm_flags r1 = decode_perms (set_bit 5 (raw_perms f))"
    and p0: "perm_flags r0 = decode_perms (unset_bit 5 (raw_perms f))"
    and s1: "perm_str r1 = build_perm_str (perm_flags r1)"
    and s0: "perm_str r0 = build_perm_str (perm_flags r0)"
    using decode_cap_pair [OF f1 f0 x, of addr] by auto
  have tl: "tl (perm_str r1) = tl (perm_str r0)"
    unfolding s1 s0 p1 p0 decode_perms_set_5 decode_perms_unset_5
    by (simp add: build_perm_str_def pc_def)
  have g: "perm_flags r1 = (perm_flags r0)\<lparr>GL := 1\<rparr>" "GL (perm_flags r0) = 0"
    unfolding p1 p0 decode_perms_set_5 decode_perms_unset_5 by simp_all
  show ?thesis
    using r tl g by (rule_tac x = r1 in exI, rule_tac x = r0 in exI) simp
qed

text \<open>
  C10. The base can be negative and is printed as it is: whenever the address has no bit
  at or above \<open>e + 9\<close> (\<open>a_top = 0\<close>) and its mid slice is below \<open>B\<close>, the
  correction \<open>c_b = -1\<close> gives \<open>base = ((-1 << 9) + B) << e\<close>, which is negative.
  For address 0, \<open>B = 1\<close>, \<open>T = 0\<close>, \<open>E = 0\<close> the base is \<open>-511\<close> and the top 0.
\<close>

theorem base_can_be_negative:
  assumes f: "extract_fields meta = f"
    and e: "e = exponent (raw_E f)"
    and a_top: "addr_top addr e = Inr 0"
    and a_mid: "addr_mid addr e = Inr a_mid"
    and lt: "a_mid < raw_B f"
  shows "\<exists>r. decode_cap addr meta = Inr r
     \<and> base r = push_bit (nat e) (push_bit 9 (-1) + raw_B f) \<and> base r < 0"
proof -
  obtain r where r: "decode_cap addr meta = Inr r" "raw r = f"
    and b: "decode_bounds addr (raw_E (raw r)) (raw_T (raw r)) (raw_B (raw r))
              = Inr (base r, top_val r)"
    using decode_cap_fields [of addr meta] f by auto
  have e0: "0 \<le> e" using exponent_nonneg [of meta] f e by simp
  have E0: "0 \<le> raw_E f" using raw_E_range [of meta] f by simp
  have at: "drop_bit (nat (e + 9)) addr = 0"
    using a_top addr_top_total [OF e0, of addr] by simp
  have am: "a_mid = drop_bit (nat e) addr AND 0x1ff"
    using a_mid addr_mid_total [OF e0, of addr] by simp
  have base: "base r = push_bit (nat e) (push_bit 9 (-1) + raw_B f)"
    using b decode_bounds_total [OF E0, of addr "raw_T f" "raw_B f"] lt at
    by (simp add: r e [symmetric] am)
  have "raw_B f < 512"
    using f AND_upper2 [of 511 meta] by (auto simp add: extract_fields_def)
  then have "push_bit 9 (-1) + raw_B f < 0" by (simp add: push_bit_eq_mult)
  then have "push_bit (nat e) (push_bit 9 (-1) + raw_B f) < 0"
    by simp
  with base r show ?thesis by simp
qed

theorem base_can_be_negative_witness:
  "extract_fields 1 =
     \<lparr> raw_v = 0, raw_R = 0, raw_perms = 0, raw_otype = 0, raw_E = 0, raw_T = 0, raw_B = 1 \<rparr>
   \<and> addr_top 0 0 = Inr 0 \<and> addr_mid 0 0 = Inr 0
   \<and> (\<exists>r. decode_cap 0 1 = Inr r \<and> base r = - 511 \<and> top_val r = 0
         \<and> stdout r ! 1 = ''-00001ff-000000000 l:0000001ff'')"
proof -
  have f: "extract_fields 1 =
     \<lparr> raw_v = 0, raw_R = 0, raw_perms = 0, raw_otype = 0, raw_E = 0, raw_T = 0, raw_B = 1 \<rparr>"
    (is "_ = ?f")
    by (simp add: extract_fields_def)
  have e: "(0::int) = exponent (raw_E ?f)" by (simp add: exponent_def)
  have a_top: "addr_top 0 0 = Inr 0" by (simp add: addr_top_def py_rshift_def)
  have a_mid: "addr_mid 0 0 = Inr 0"
    by (simp add: addr_mid_def py_rshift_def bind_err_def)
  have lt: "0 < raw_B ?f" by simp
  obtain r where r: "decode_cap 0 1 = Inr r" "base r = -511"
    using base_can_be_negative [OF f e a_top a_mid lt] by (auto simp add: push_bit_eq_mult)
  obtain r' where r': "decode_cap 0 1 = Inr r'" "raw r' = extract_fields 1"
    and b: "decode_bounds 0 (raw_E (raw r')) (raw_T (raw r')) (raw_B (raw r'))
              = Inr (base r', top_val r')"
    and out: "stdout r' = [raw_line (raw r') 0] @ reserved_warning (raw r') @
                  [bounds_line (base r') (top_val r'), ''otype='' @ otype_str r', perm_str r']"
    using decode_cap_fields [of 0 1] by auto
  have same: "r' = r" using r r' by simp
  have rawr: "raw r = ?f" using r' same f by simp
  have t: "top_val r = 0"
    using b [unfolded same rawr] by (simp add: decode_bounds_total exponent_def)
  have bl: "bounds_line (-511) 0 = ''-00001ff-000000000 l:0000001ff''"
    by (simp add: bounds_line_def fmt_simps)
  have "stdout r ! 1 = ''-00001ff-000000000 l:0000001ff''"
    using out [unfolded same rawr] r t by (simp add: reserved_warning_def bl)
  with r t f a_top a_mid show ?thesis by simp
qed

text \<open>
  C1. The fallback rule of the permission table (\<open>p4 = 0\<close>, \<open>p3 = 0\<close>: \<open>U0 = p2\<close>,
  \<open>SE = p1\<close>, \<open>US = p0\<close>) is not what the chain does: the guard of its last branch is
  \<open>not p4 and not 3\<close>, and \<open>not 3\<close> is false, so the branch is never taken. For the perms value
  \<open>000111\<close> (metadata word \<open>0x0e000000\<close>) the bits \<open>p2\<close>, \<open>p1\<close>, \<open>p0\<close> are 1 and the
  flags \<open>U0\<close>, \<open>SE\<close>, \<open>US\<close> stay 0: no rule of the table fires.
\<close>

theorem fallback_branch_never_taken:
  "drop_bit 4 (7::int) AND 1 = 0 \<and> drop_bit 3 (7::int) AND 1 = 0
   \<and> drop_bit 2 (7::int) AND 1 = 1 \<and> drop_bit 1 (7::int) AND 1 = 1
   \<and> drop_bit 0 (7::int) AND 1 = 1
   \<and> U0 (decode_perms 7) = 0 \<and> SE (decode_perms 7) = 0 \<and> US (decode_perms 7) = 0
   \<and> decode_perms 7 = no_flags 0
   \<and> raw_perms (extract_fields 0x0e000000) = 7
   \<and> build_perm_str (decode_perms 7) = ''- ----- -- ---''"
  by (simp add: decode_perms_def no_flags_def truthy_def extract_fields_def
      build_perm_str_def pc_def)



text \<open>
  C5. The effective exponent is 24 when the field \<open>E\<close> is 15 (the shifts of the bounds
  stage are then by 33 and by 24) and is \<open>E\<close> itself for the other values 0 to 14; and
  with \<open>E = 0\<close>, \<open>T = 0\<close>, \<open>B = 0\<close> and address 0 the base and the top are both 0.
\<close>

theorem exponent_boundary:
  "(raw_E (extract_fields meta) = 15 \<longrightarrow>
      exponent (raw_E (extract_fields meta)) = 24
      \<and> addr_top addr (exponent (raw_E (extract_fields meta))) = Inr (drop_bit 33 addr)
      \<and> addr_mid addr (exponent (raw_E (extract_fields meta)))
          = Inr (drop_bit 24 addr AND 0x1ff))
   \<and> (raw_E (extract_fields meta) \<noteq> 15 \<longrightarrow>
      exponent (raw_E (extract_fields meta)) = raw_E (extract_fields meta)
      \<and> 0 \<le> raw_E (extract_fields meta) \<and> raw_E (extract_fields meta) \<le> 14)
   \<and> (raw_E (extract_fields meta) = 0 \<and> raw_T (extract_fields meta) = 0
        \<and> raw_B (extract_fields meta) = 0 \<longrightarrow>
      (\<exists>r. decode_cap 0 meta = Inr r \<and> base r = 0 \<and> top_val r = 0))"
proof -
  have hi: "raw_E (extract_fields meta) = 15 \<longrightarrow>
      exponent (raw_E (extract_fields meta)) = 24
      \<and> addr_top addr (exponent (raw_E (extract_fields meta))) = Inr (drop_bit 33 addr)
      \<and> addr_mid addr (exponent (raw_E (extract_fields meta)))
          = Inr (drop_bit 24 addr AND 0x1ff)"
    by (simp add: exponent_def addr_top_total addr_mid_total)
  have lo: "raw_E (extract_fields meta) \<noteq> 15 \<longrightarrow>
      exponent (raw_E (extract_fields meta)) = raw_E (extract_fields meta)
      \<and> 0 \<le> raw_E (extract_fields meta) \<and> raw_E (extract_fields meta) \<le> 14"
    using raw_E_range [of meta] by (simp add: exponent_def)
  have zero: "raw_E (extract_fields meta) = 0 \<and> raw_T (extract_fields meta) = 0
        \<and> raw_B (extract_fields meta) = 0 \<longrightarrow>
      (\<exists>r. decode_cap 0 meta = Inr r \<and> base r = 0 \<and> top_val r = 0)"
  proof
    assume h: "raw_E (extract_fields meta) = 0 \<and> raw_T (extract_fields meta) = 0
        \<and> raw_B (extract_fields meta) = 0"
    obtain r where r: "decode_cap 0 meta = Inr r" "raw r = extract_fields meta"
      and b: "decode_bounds 0 (raw_E (raw r)) (raw_T (raw r)) (raw_B (raw r))
              = Inr (base r, top_val r)"
      using decode_cap_fields [of 0 meta] by auto
    have "decode_bounds 0 0 0 0 = Inr (0, 0)"
      by (simp add: decode_bounds_total exponent_def)
    with b h r have "base r = 0 \<and> top_val r = 0" by simp
    with r show "\<exists>r. decode_cap 0 meta = Inr r \<and> base r = 0 \<and> top_val r = 0" by blast
  qed
  from hi lo zero show ?thesis by blast
qed

theorem exponent_boundary_witness:
  "raw_E (extract_fields 0x3c0000) = 15 \<and> exponent (raw_E (extract_fields 0x3c0000)) = 24
   \<and> raw_E (extract_fields 0x40000) = 1 \<and> exponent (raw_E (extract_fields 0x40000)) = 1
   \<and> raw_E (extract_fields 0) = 0 \<and> raw_T (extract_fields 0) = 0 \<and> raw_B (extract_fields 0) = 0
   \<and> exponent (raw_E (extract_fields 0)) = 0
   \<and> (\<exists>r. decode_cap 0 0 = Inr r \<and> base r = 0 \<and> top_val r = 0)"
proof -
  have a: "raw_E (extract_fields 0x3c0000) = 15"
    by (simp add: extract_fields_def)
  have b: "raw_E (extract_fields 0x40000) = 1"
    by (simp add: extract_fields_def)
  have c: "raw_E (extract_fields 0) = 0" "raw_T (extract_fields 0) = 0"
    "raw_B (extract_fields 0) = 0"
    by (simp_all add: extract_fields_def)
  show ?thesis
    using exponent_boundary [of "0x3c0000" 0] exponent_boundary [of "0x40000" 0]
      exponent_boundary [of 0 0] a b c
    by simp
qed

text \<open>
  C6. The third rule is tried before the fourth: for \<open>p4 = 1\<close> and
  \<open>p3 = p2 = p1 = p0 = 0\<close> the decoder sets \<open>SD\<close> and \<open>MC\<close> and leaves \<open>LD\<close> clear,
  which is not what the fourth rule (\<open>LD = p1\<close>, \<open>SD = p0\<close>) would give.
\<close>

theorem specific_rule_first:
  assumes "drop_bit 4 perms AND 1 = 1" and "drop_bit 3 perms AND 1 = 0"
    and "drop_bit 2 perms AND 1 = 0" and "drop_bit 1 perms AND 1 = 0"
    and "drop_bit 0 perms AND 1 = 0"
  shows "decode_perms perms = (no_flags (drop_bit 5 perms AND 1))\<lparr>SD := 1, MC := 1\<rparr>
     \<and> SD (decode_perms perms) = 1 \<and> MC (decode_perms perms) = 1
     \<and> LD (decode_perms perms) = 0
     \<and> decode_perms perms \<noteq>
         (no_flags (drop_bit 5 perms AND 1))
           \<lparr>LD := drop_bit 1 perms AND 1, SD := drop_bit 0 perms AND 1\<rparr>"
proof -
  have "decode_perms perms = (no_flags (drop_bit 5 perms AND 1))\<lparr>SD := 1, MC := 1\<rparr>"
    unfolding decode_perms_def Let_def assms by (simp add: truthy_def)
  then show ?thesis
    unfolding assms by (simp add: no_flags_def)
qed

theorem specific_rule_first_witness:
  "drop_bit 4 (16::int) AND 1 = 1 \<and> drop_bit 3 (16::int) AND 1 = 0
   \<and> drop_bit 2 (16::int) AND 1 = 0 \<and> drop_bit 1 (16::int) AND 1 = 0
   \<and> drop_bit 0 (16::int) AND 1 = 0
   \<and> decode_perms 16 =
       \<lparr> GL = 0, LD = 0, SD = 1, MC = 1, SL = 0, LM = 0, LG = 0,
         SR = 0, EX_perm = 0, U0 = 0, SE = 0, US = 0 \<rparr>"
proof -
  have h: "drop_bit 4 (16::int) AND 1 = 1" "drop_bit 3 (16::int) AND 1 = 0"
    "drop_bit 2 (16::int) AND 1 = 0" "drop_bit 1 (16::int) AND 1 = 0"
    "drop_bit 0 (16::int) AND 1 = 0"
    by simp_all
  have g: "drop_bit 5 (16::int) AND 1 = 0" by simp
  show ?thesis
    using specific_rule_first [OF h] h unfolding g by (simp add: no_flags_def)
qed

end
